theory Spec2Isabelle
  imports Main
begin

section \<open>JavaScript values\<close>

text \<open>
  A value of TypeScript type \<^verbatim>\<open>string | undefined\<close> is a \<^typ>\<open>string option\<close>, with
  \<^term>\<open>None\<close> for \<^verbatim>\<open>undefined\<close>. The source tests such values with \<^verbatim>\<open>if (x)\<close> and
  \<^verbatim>\<open>if (!x)\<close>: \<^verbatim>\<open>undefined\<close> and the empty string are both falsy.
\<close>

definition truthy :: "string option \<Rightarrow> bool" where
  "truthy v = (case v of None \<Rightarrow> False | Some s \<Rightarrow> s \<noteq> [])"

text \<open>
  \<^verbatim>\<open>String.prototype.split\<close> with a one-character separator: the pieces between the
  separators, empty pieces kept; the empty string splits into one empty piece.
\<close>

fun split_js :: "char \<Rightarrow> string \<Rightarrow> string list" where
  "split_js sep [] = [[]]"
| "split_js sep (c # cs) =
     (if c = sep then [] # split_js sep cs
      else (case split_js sep cs of [] \<Rightarrow> [[c]] | w # ws \<Rightarrow> (c # w) # ws))"

text \<open>Array indexing \<^verbatim>\<open>xs[i]\<close>: \<^verbatim>\<open>undefined\<close> out of range.\<close>

definition index_js :: "'a list \<Rightarrow> nat \<Rightarrow> 'a option" where
  "index_js xs i = (if i < length xs then Some (xs ! i) else None)"

text \<open>
  A failed call: \<^verbatim>\<open>throw new Error(message)\<close> in the source is \<open>Error message\<close>; a
  rejection of a library promise that the source lets propagate is \<open>Rejection\<close>.
\<close>

datatype error = Error string | Rejection

text \<open>What awaiting a library call gives: a value, or a rejection.\<close>

datatype 'a promise = Resolves 'a | Rejects

section \<open>auth.ts\<close>

subsection \<open>Library types and their behaviour\<close>

text \<open>
  An \<^verbatim>\<open>AccountInfo\<close> object of the identity library is known by a name; as a JavaScript
  object it is truthy whatever the name is.
\<close>

type_synonym account_info = string

record authentication_result =
  accessToken :: string
  account :: "account_info option"

record access_token =
  token :: string

datatype token_credential =
    DefaultAzureCredential
  | AzureCliCredential string
  | ChainedTokenCredential token_credential token_credential

text \<open>\<^verbatim>\<open>class OboAuthenticator\<close>: the configuration of its confidential client.\<close>

record obo_authenticator =
  cca_clientId :: string
  cca_clientSecret :: string
  cca_authority :: string

text \<open>\<^verbatim>\<open>class OAuthAuthenticator\<close>: the cached account and the authority of its public client.\<close>

record oauth_authenticator =
  accountId :: "account_info option"
  publicClientApp_authority :: string

text \<open>
  The identity libraries are the environment of the program: what each of their calls
  answers is a parameter of the model.
\<close>

record libraries =
  acquireTokenSilent :: "account_info \<Rightarrow> authentication_result promise"
  acquireTokenInteractive :: "authentication_result promise"
  acquireTokenOnBehalfOf :: "obo_authenticator \<Rightarrow> string \<Rightarrow> authentication_result option promise"
  source_getToken :: "token_credential \<Rightarrow> access_token option promise"

text \<open>
  \<^verbatim>\<open>ChainedTokenCredential.getToken\<close> asks its sources in the order they were given to the
  constructor until one gives a token; it rejects when a source was unavailable and none
  gave a token. The other credentials are sources of their own. This is the contract of
  the identity library, not code of the repository; a source is unavailable or answers,
  and a failure that would stop the chain at once is not modelled.
\<close>

fun credential_getToken :: "libraries \<Rightarrow> token_credential \<Rightarrow> access_token option promise" where
  "credential_getToken libs (ChainedTokenCredential a b) =
     (case credential_getToken libs a of
        Resolves (Some t) \<Rightarrow> Resolves (Some t)
      | Resolves None \<Rightarrow> credential_getToken libs b
      | Rejects \<Rightarrow>
          (case credential_getToken libs b of
             Resolves (Some t) \<Rightarrow> Resolves (Some t)
           | Resolves None \<Rightarrow> Rejects
           | Rejects \<Rightarrow> Rejects))"
| "credential_getToken libs DefaultAzureCredential = source_getToken libs DefaultAzureCredential"
| "credential_getToken libs (AzureCliCredential tenantId) =
     source_getToken libs (AzureCliCredential tenantId)"

text \<open>The sources of a credential, in the order they are asked.\<close>

fun sources :: "token_credential \<Rightarrow> token_credential list" where
  "sources (ChainedTokenCredential a b) = sources a @ sources b"
| "sources c = [c]"

text \<open>The first token the sources give, asked in order.\<close>

fun first_token :: "libraries \<Rightarrow> token_credential list \<Rightarrow> access_token option" where
  "first_token libs [] = None"
| "first_token libs (c # cs) =
     (case source_getToken libs c of
        Resolves (Some t) \<Rightarrow> Some t
      | _ \<Rightarrow> first_token libs cs)"

subsection \<open>Interactive OAuth\<close>

definition OAuthAuthenticator :: "string option \<Rightarrow> oauth_authenticator" where
  "OAuthAuthenticator tenantId =
     \<lparr>accountId = None,
      publicClientApp_authority =
        (if truthy tenantId then ''https://login.microsoftonline.com/'' @ the tenantId
         else ''https://login.microsoftonline.com/common'')\<rparr>"

text \<open>The library flows \<^verbatim>\<open>getToken\<close> runs, in order.\<close>

datatype flow = Silent account_info | Interactive

text \<open>The last statements of \<^verbatim>\<open>getToken\<close>: the check of the access token.\<close>

definition usable_token :: "authentication_result \<Rightarrow> error + string" where
  "usable_token authResult =
     (if accessToken authResult = [] then Inl (Error ''Failed to obtain Azure DevOps OAuth token.'')
      else Inr (accessToken authResult))"

text \<open>
  \<^verbatim>\<open>OAuthAuthenticator.getToken\<close>: the result, the authenticator after the call and the
  library flows the call ran.
\<close>

definition getToken ::
  "libraries \<Rightarrow> oauth_authenticator \<Rightarrow> (error + string) \<times> oauth_authenticator \<times> flow list" where
  "getToken libs this =
     (let silent =
            (case accountId this of
               None \<Rightarrow> (None, [])
             | Some acc \<Rightarrow>
                 (case acquireTokenSilent libs acc of
                    Resolves r \<Rightarrow> (Some r, [Silent acc])
                  | Rejects \<Rightarrow> (None, [Silent acc])))
      in case fst silent of
           Some authResult \<Rightarrow> (usable_token authResult, this, snd silent)
         | None \<Rightarrow>
             (case acquireTokenInteractive libs of
                Rejects \<Rightarrow> (Inl Rejection, this, snd silent @ [Interactive])
              | Resolves authResult \<Rightarrow>
                  (usable_token authResult,
                   this\<lparr>accountId := account authResult\<rparr>,
                   snd silent @ [Interactive])))"

subsection \<open>On-behalf-of\<close>

definition OboAuthenticator :: "string \<Rightarrow> string \<Rightarrow> string option \<Rightarrow> obo_authenticator" where
  "OboAuthenticator clientId clientSecret tenantId =
     \<lparr>cca_clientId = clientId,
      cca_clientSecret = clientSecret,
      cca_authority =
        (if truthy tenantId then ''https://login.microsoftonline.com/'' @ the tenantId
         else ''https://login.microsoftonline.com/common'')\<rparr>"

definition getTokenOnBehalfOf :: "libraries \<Rightarrow> obo_authenticator \<Rightarrow> string \<Rightarrow> error + string" where
  "getTokenOnBehalfOf libs this userAssertion =
     (case acquireTokenOnBehalfOf libs this userAssertion of
        Rejects \<Rightarrow> Inl Rejection
      | Resolves None \<Rightarrow> Inl (Error ''Failed to obtain OBO token.'')
      | Resolves (Some result) \<Rightarrow>
          (if accessToken result = [] then Inl (Error ''Failed to obtain OBO token.'')
           else Inr (accessToken result)))"

subsection \<open>The factory\<close>

record options =
  clientId :: "string option"
  clientSecret :: "string option"

text \<open>
  The closures \<^verbatim>\<open>createAuthenticator\<close> returns, one constructor for each \<^verbatim>\<open>return\<close> of the
  switch, holding what the closure captures. In the factory \<open>Option.bind opts clientId\<close>
  is \<^verbatim>\<open>options?.clientId\<close>: nothing when there are no options or the member is missing.
\<close>

datatype backend =
    CredentialAuth token_credential
  | ExternalAuth
  | OboAuth obo_authenticator
  | OAuthAuth oauth_authenticator

definition createAuthenticator ::
  "string \<Rightarrow> string option \<Rightarrow> options option \<Rightarrow> error + backend" where
  "createAuthenticator type tenantId opts =
     (if type = ''azcli'' \<or> type = ''env'' then
        Inr (CredentialAuth
          (if truthy tenantId \<and> type = ''azcli''
           then ChainedTokenCredential (AzureCliCredential (the tenantId)) DefaultAzureCredential
           else DefaultAzureCredential))
      else if type = ''external'' then Inr ExternalAuth
      else if type = ''obo'' then
        (if \<not> truthy (Option.bind opts clientId) \<or> \<not> truthy (Option.bind opts clientSecret)
         then Inl (Error ''OBO requires clientId and clientSecret.'')
         else Inr (OboAuth (OboAuthenticator (the (Option.bind opts clientId))
                                             (the (Option.bind opts clientSecret)) tenantId)))
      else Inr (OAuthAuth (OAuthAuthenticator tenantId)))"

text \<open>
  The copy of the factory in \<^verbatim>\<open>unnamed/part_000\<close>, which has no on-behalf-of case; it
  chains the Azure CLI credential in both service modes. The second draft in \<^verbatim>\<open>auth.ts\<close>
  builds the credential of the service modes in the same way.
\<close>

definition createAuthenticator_part_000 :: "string \<Rightarrow> string option \<Rightarrow> error + backend" where
  "createAuthenticator_part_000 type tenantId =
     (if type = ''azcli'' \<or> type = ''env'' then
        Inr (CredentialAuth
          (if truthy tenantId
           then ChainedTokenCredential (AzureCliCredential (the tenantId)) DefaultAzureCredential
           else DefaultAzureCredential))
      else if type = ''external'' then Inr ExternalAuth
      else Inr (OAuthAuth (OAuthAuthenticator tenantId)))"

text \<open>
  Calling a closure of \<^verbatim>\<open>createAuthenticator\<close> with an optional argument: the result, and
  the closure afterwards (the interactive one caches an account).
\<close>

fun acquire :: "libraries \<Rightarrow> backend \<Rightarrow> string option \<Rightarrow> (error + string) \<times> backend" where
  "acquire libs (CredentialAuth credential) externalToken =
     (case credential_getToken libs credential of
        Rejects \<Rightarrow> (Inl Rejection, CredentialAuth credential)
      | Resolves None \<Rightarrow> (Inl (Error ''Failed to obtain Azure DevOps token.''), CredentialAuth credential)
      | Resolves (Some result) \<Rightarrow> (Inr (token result), CredentialAuth credential))"
| "acquire libs ExternalAuth externalToken =
     (if \<not> truthy externalToken
      then (Inl (Error ''External token must be provided for 'external' auth type.''), ExternalAuth)
      else (Inr (the externalToken), ExternalAuth))"
| "acquire libs (OboAuth obo) externalToken =
     (if \<not> truthy externalToken
      then (Inl (Error ''OBO flow requires a user token to exchange.''), OboAuth obo)
      else (getTokenOnBehalfOf libs obo (the externalToken), OboAuth obo))"
| "acquire libs (OAuthAuth authenticator) externalToken =
     (case getToken libs authenticator of
        (result, authenticator', flows) \<Rightarrow> (result, OAuthAuth authenticator'))"

section \<open>index.ts\<close>

subsection \<open>The authenticator of \<^verbatim>\<open>main\<close>\<close>

text \<open>
  \<^verbatim>\<open>tokenProvider\<close> takes no argument; it reads the variable \<^verbatim>\<open>externalToken\<close> of \<^verbatim>\<open>main\<close>.
\<close>

definition tokenProvider :: "string option \<Rightarrow> error + string" where
  "tokenProvider externalToken =
     (if \<not> truthy externalToken
      then Inl (Error ''External token must be provided for 'external' auth type.'')
      else Inr (the externalToken))"

text \<open>What \<^verbatim>\<open>main\<close> assigns to \<^verbatim>\<open>authenticator\<close> before it wraps it.\<close>

datatype original = TokenProvider | Created backend

definition main_authenticator ::
  "string \<Rightarrow> string option \<Rightarrow> string option \<Rightarrow> string option \<Rightarrow> error + original" where
  "main_authenticator authentication tenant AZURE_CLIENT_ID AZURE_CLIENT_SECRET =
     (if authentication = ''external'' then Inr TokenProvider
      else if authentication = ''obo'' then
        (if \<not> truthy AZURE_CLIENT_ID \<or> \<not> truthy AZURE_CLIENT_SECRET
         then Inl (Error ''OBO authentication requires AZURE_CLIENT_ID and AZURE_CLIENT_SECRET environment variables.'')
         else map_sum id Created
                (createAuthenticator ''obo'' tenant
                   (Some \<lparr>clientId = AZURE_CLIENT_ID, clientSecret = AZURE_CLIENT_SECRET\<rparr>)))
      else map_sum id Created (createAuthenticator authentication tenant None))"

text \<open>Calling \<^verbatim>\<open>originalAuthenticator\<close> while \<^verbatim>\<open>externalToken\<close> holds the given value.\<close>

fun originalAuthenticator ::
  "libraries \<Rightarrow> string option \<Rightarrow> original \<Rightarrow> string option \<Rightarrow> (error + string) \<times> original" where
  "originalAuthenticator libs externalToken TokenProvider userAssertion =
     (tokenProvider externalToken, TokenProvider)"
| "originalAuthenticator libs externalToken (Created b) userAssertion =
     (case acquire libs b userAssertion of (result, b') \<Rightarrow> (result, Created b'))"

text \<open>
  The wrapper \<^verbatim>\<open>main\<close> puts around \<^verbatim>\<open>originalAuthenticator\<close>; its second argument is the
  value of the variable \<^verbatim>\<open>externalToken\<close> at the time of the call.
\<close>

definition authenticator ::
  "(string option \<Rightarrow> 'r) \<Rightarrow> string option \<Rightarrow> string option \<Rightarrow> 'r" where
  "authenticator original_authenticator externalToken userAssertion =
     (if truthy userAssertion then original_authenticator userAssertion
      else if truthy externalToken then original_authenticator externalToken
      else original_authenticator None)"

subsection \<open>The HTTP transport\<close>

text \<open>
  The parsed JSON body of a request, as far as the handlers look at it: absent, an
  array, or an object with its member \<^verbatim>\<open>method\<close> when that is a string.
\<close>

datatype body = NoBody | JsonArray | JsonObject "string option"

definition isInitializeBody :: "body \<Rightarrow> bool" where
  "isInitializeBody b =
     (case b of NoBody \<Rightarrow> False | JsonArray \<Rightarrow> False | JsonObject m \<Rightarrow> m = Some ''initialize'')"

record request =
  mcp_session_id :: "string option"
  authorization :: "string option"
  body :: body

text \<open>\<^verbatim>\<open>req.headers["authorization"]?.split(" ")[1]\<close>\<close>

definition bearer :: "string option \<Rightarrow> string option" where
  "bearer header =
     (case header of None \<Rightarrow> None | Some v \<Rightarrow> index_js (split_js CHR '' '' v) 1)"

text \<open>
  \<^verbatim>\<open>crypto.randomUUID()\<close>, which the source gives the transport as \<^verbatim>\<open>sessionIdGenerator\<close>: a
  version 4 UUID, 36 characters of lower-case hexadecimal digits and hyphens, written
  from the 16 random bytes it draws (its argument here, as one number) with the version
  and variant bits set.
\<close>

definition hex_digit :: "nat \<Rightarrow> char" where
  "hex_digit d = ''0123456789abcdef'' ! (d mod 16)"

fun nibbles :: "nat \<Rightarrow> nat \<Rightarrow> nat list" where
  "nibbles 0 n = []"
| "nibbles (Suc k) n = nibbles k (n div 16) @ [n mod 16]"

definition randomUUID :: "nat \<Rightarrow> string" where
  "randomUUID random =
     (let d = nibbles 32 random
      in map hex_digit (take 8 d) @ ''-'' @ map hex_digit (take 4 (drop 8 d)) @ ''-4'' @
         map hex_digit (take 3 (drop 13 d)) @ ''-'' @ [''89ab'' ! (d ! 16 mod 4)] @
         map hex_digit (take 3 (drop 17 d)) @ ''-'' @ map hex_digit (drop 20 d))"

text \<open>
  \<^verbatim>\<open>transports\<close> is an object literal, \<^verbatim>\<open>{}\<close>, used as a dictionary: reading
  \<^verbatim>\<open>transports[sessionId]\<close> finds the entry the handlers stored under the id, and otherwise,
  for the name of a member of \<^verbatim>\<open>Object.prototype\<close>, that inherited member, which is truthy
  and is no transport. \<^verbatim>\<open>delete\<close> takes a stored entry out and leaves the inherited members.
\<close>

definition object_prototype :: "string list" where
  "object_prototype =
     [''constructor'', ''__proto__'', ''toString'', ''toLocaleString'', ''valueOf'',
      ''hasOwnProperty'', ''isPrototypeOf'', ''propertyIsEnumerable'',
      ''__defineGetter__'', ''__defineSetter__'', ''__lookupGetter__'', ''__lookupSetter__'']"

datatype property = Stored nat | Inherited

definition lookup_js :: "(string \<rightharpoonup> nat) \<Rightarrow> string \<Rightarrow> property option" where
  "lookup_js entries name =
     (case entries name of
        Some t \<Rightarrow> Some (Stored t)
      | None \<Rightarrow> if name \<in> set object_prototype then Some Inherited else None)"

text \<open>
  A transport object is known by the number of its construction. The state of \<^verbatim>\<open>main\<close>
  that the handlers share: the variable \<^verbatim>\<open>externalToken\<close>, the entries stored in
  \<^verbatim>\<open>transports\<close>, and for every transport constructed so far its field \<^verbatim>\<open>sessionId\<close>, which
  the transport library owns and the source only reads.
\<close>

record server_state =
  externalToken :: "string option"
  transports :: "string \<rightharpoonup> nat"
  transport_sessionId :: "nat \<Rightarrow> string option"
  constructed :: nat

definition initial_state :: server_state where
  "initial_state =
     \<lparr>externalToken = None, transports = Map.empty,
      transport_sessionId = (\<lambda>t. None), constructed = 0\<rparr>"

text \<open>
  The two callbacks the POST handler gives a new transport \<open>t\<close>. The ids that
  \<^verbatim>\<open>onsessioninitialized\<close> is called with are results of \<^verbatim>\<open>sessionIdGenerator\<close>, so the
  assignment \<^verbatim>\<open>transports[sessionId] = transport\<close> stores an entry.
\<close>

definition onsessioninitialized :: "nat \<Rightarrow> string \<Rightarrow> server_state \<Rightarrow> server_state" where
  "onsessioninitialized t sessionId st = st\<lparr>transports := (transports st)(sessionId \<mapsto> t)\<rparr>"

definition onclose :: "nat \<Rightarrow> server_state \<Rightarrow> server_state" where
  "onclose t st =
     (if truthy (transport_sessionId st t)
      then st\<lparr>transports := (transports st)(the (transport_sessionId st t) := None)\<rparr>
      else st)"

text \<open>
  \<^verbatim>\<open>transport.handleRequest\<close> belongs to the transport library. What it does to the state
  of \<^verbatim>\<open>main\<close> is to call the callbacks of the transport: on a handshake it calls
  \<^verbatim>\<open>sessionIdGenerator\<close>, stores the id in the field \<^verbatim>\<open>sessionId\<close> and calls
  \<^verbatim>\<open>onsessioninitialized\<close> with it; when the connection closes it calls \<^verbatim>\<open>onclose\<close>. One call
  is given by the notifications it makes, in order, and by whether it throws in the end;
  a handshake notification carries the random bits the generator drew.
\<close>

datatype sdk_event = SessionInitialized nat | Closed

record sdk_run =
  events :: "sdk_event list"
  throws :: bool

fun notify :: "nat \<Rightarrow> sdk_event \<Rightarrow> server_state \<Rightarrow> server_state" where
  "notify t (SessionInitialized random) st =
     onsessioninitialized t (randomUUID random)
       (st\<lparr>transport_sessionId := (transport_sessionId st)(t := Some (randomUUID random))\<rparr>)"
| "notify t Closed st = onclose t st"

fun handleRequest :: "sdk_event list \<Rightarrow> nat \<Rightarrow> server_state \<Rightarrow> server_state" where
  "handleRequest [] t st = st"
| "handleRequest (e # es) t st = handleRequest es t (notify t e st)"

text \<open>What a handler answers by itself, and what becomes of a request.\<close>

datatype payload =
    ErrorObject string
  | JsonRpcError int string "nat option"
  | PlainText string

record response =
  status :: nat
  payload :: payload

text \<open>
  \<open>Routed t established threw\<close>: the request was given to \<^verbatim>\<open>handleRequest\<close> of transport
  \<open>t\<close>, which the handler had just constructed (\<open>established\<close>) or found in \<^verbatim>\<open>transports\<close>,
  and the call threw or returned. \<open>TypeError\<close>: the handler threw because the value it
  found in \<^verbatim>\<open>transports\<close> is no transport and has no \<^verbatim>\<open>handleRequest\<close>.
\<close>

datatype outcome = Responded response | Routed nat bool bool | TypeError

definition user_token_required :: response where
  "user_token_required =
     \<lparr>status = 400, payload = ErrorObject ''User token required for OBO authentication''\<rparr>"

definition no_valid_session :: response where
  "no_valid_session =
     \<lparr>status = 400,
      payload = JsonRpcError (- 32000) ''Bad Request: No valid session ID provided'' None\<rparr>"

definition invalid_or_missing_session :: response where
  "invalid_or_missing_session =
     \<lparr>status = 400, payload = PlainText ''Invalid or missing session ID''\<rparr>"

text \<open>The first statements of the POST handler: the identity of the request.\<close>

definition extract_identity :: "string \<Rightarrow> request \<Rightarrow> server_state \<Rightarrow> response + server_state" where
  "extract_identity authentication req st =
     (if authentication = ''external'' then
        Inr (st\<lparr>externalToken := bearer (authorization req)\<rparr>)
      else if authentication = ''obo'' then
        (let userAssertion = bearer (authorization req)
         in if \<not> truthy userAssertion then Inl user_token_required
            else Inr (st\<lparr>externalToken := userAssertion\<rparr>))
      else Inr st)"

text \<open>
  \<^verbatim>\<open>new StreamableHTTPServerTransport(...)\<close>: a transport with no session id yet. The
  assignment of \<^verbatim>\<open>transport.onclose\<close> and \<^verbatim>\<open>server.connect(transport)\<close> that follow it bind the
  callbacks and the server to the transport; they change nothing of the state, and
  \<^verbatim>\<open>connect\<close> is taken to succeed on a transport that was just constructed.
\<close>

definition new_transport :: "server_state \<Rightarrow> server_state" where
  "new_transport st =
     st\<lparr>transport_sessionId := (transport_sessionId st)(constructed st := None),
        constructed := Suc (constructed st)\<rparr>"

text \<open>
  The \<^verbatim>\<open>try\<close> ... \<^verbatim>\<open>finally\<close> at the end of the POST handler, for the value the handler
  holds in its variable \<^verbatim>\<open>transport\<close>. On an inherited member the call of
  \<^verbatim>\<open>transport.handleRequest\<close> throws inside the \<^verbatim>\<open>try\<close> block.
\<close>

definition try_handleRequest ::
  "string \<Rightarrow> sdk_run \<Rightarrow> property \<Rightarrow> bool \<Rightarrow> server_state \<Rightarrow> outcome \<times> server_state" where
  "try_handleRequest authentication sdk transport established st =
     (let attempt =
            (case transport of
               Stored t \<Rightarrow> (Routed t established (throws sdk), handleRequest (events sdk) t st)
             | Inherited \<Rightarrow> (TypeError, st))
      in (fst attempt,
          if authentication = ''obo'' then (snd attempt)\<lparr>externalToken := None\<rparr>
          else snd attempt))"

text \<open>\<^verbatim>\<open>app.post("/mcp", ...)\<close>\<close>

definition post :: "string \<Rightarrow> sdk_run \<Rightarrow> request \<Rightarrow> server_state \<Rightarrow> outcome \<times> server_state" where
  "post authentication sdk req st =
     (let sessionId = mcp_session_id req
      in case extract_identity authentication req st of
           Inl r \<Rightarrow> (Responded r, st)
         | Inr st1 \<Rightarrow>
             (if truthy sessionId \<and> lookup_js (transports st1) (the sessionId) \<noteq> None then
                try_handleRequest authentication sdk
                  (the (lookup_js (transports st1) (the sessionId))) False st1
              else if \<not> truthy sessionId \<and> isInitializeBody (body req) then
                try_handleRequest authentication sdk
                  (Stored (constructed st1)) True (new_transport st1)
              else (Responded no_valid_session, st1)))"

text \<open>\<^verbatim>\<open>handleSessionRequest\<close>, the handler of GET and DELETE.\<close>

definition handleSessionRequest :: "sdk_run \<Rightarrow> request \<Rightarrow> server_state \<Rightarrow> outcome \<times> server_state" where
  "handleSessionRequest sdk req st =
     (let sessionId = mcp_session_id req
      in if \<not> truthy sessionId \<or> lookup_js (transports st) (the sessionId) = None then
           (Responded invalid_or_missing_session, st)
         else
           (case the (lookup_js (transports st) (the sessionId)) of
              Stored t \<Rightarrow> (Routed t False (throws sdk), handleRequest (events sdk) t st)
            | Inherited \<Rightarrow> (TypeError, st)))"

text \<open>
  Every entry of \<^verbatim>\<open>transports\<close> stands under the session id of its transport, a
  transport that was constructed before, and that id is not empty.
\<close>

definition registry_consistent :: "server_state \<Rightarrow> bool" where
  "registry_consistent st =
     (\<forall>s t. transports st s = Some t \<longrightarrow>
        s \<noteq> [] \<and> t < constructed st \<and> transport_sessionId st t = Some s)"

text \<open>
  The transport library answers a handshake once for each transport: a run on a
  transport that has its id already (\<open>initialized\<close>) makes no further
  \<open>SessionInitialized\<close> notification.
\<close>

fun handshake_once :: "bool \<Rightarrow> sdk_event list \<Rightarrow> bool" where
  "handshake_once initialized [] = True"
| "handshake_once initialized (SessionInitialized random # es) =
     (\<not> initialized \<and> handshake_once True es)"
| "handshake_once initialized (Closed # es) = handshake_once initialized es"

subsection \<open>Environments and states of the examples\<close>

text \<open>Libraries that grant every request, and libraries that refuse every request.\<close>

definition granting_libraries :: libraries where
  "granting_libraries =
     \<lparr>acquireTokenSilent = (\<lambda>acc. Resolves \<lparr>accessToken = ''silent-token'', account = Some acc\<rparr>),
      acquireTokenInteractive = Resolves \<lparr>accessToken = ''interactive-token'', account = Some ''alice''\<rparr>,
      acquireTokenOnBehalfOf =
        (\<lambda>obo assertion. Resolves (Some \<lparr>accessToken = ''exchanged-token'', account = None\<rparr>)),
      source_getToken = (\<lambda>c. Resolves (Some \<lparr>token = ''ambient-token''\<rparr>))\<rparr>"

definition refusing_libraries :: libraries where
  "refusing_libraries =
     \<lparr>acquireTokenSilent = (\<lambda>acc. Rejects),
      acquireTokenInteractive = Rejects,
      acquireTokenOnBehalfOf = (\<lambda>obo assertion. Rejects),
      source_getToken = (\<lambda>c. Rejects)\<rparr>"

text \<open>
  A server with one session on the transport constructed first, as a handshake POST
  leaves it when the generator draws 1.
\<close>

definition one_session :: server_state where
  "one_session =
     \<lparr>externalToken = None, transports = [randomUUID 1 \<mapsto> 0],
      transport_sessionId = (\<lambda>t. None)(0 := Some (randomUUID 1)), constructed = 1\<rparr>"

definition quiet_run :: sdk_run where
  "quiet_run = \<lparr>events = [], throws = False\<rparr>"

text \<open>Libraries in which each ambient source gives a token of its own.\<close>

definition two_source_libraries :: libraries where
  "two_source_libraries =
     refusing_libraries
       \<lparr>source_getToken :=
          (\<lambda>c. case c of
                 AzureCliCredential tenantId \<Rightarrow> Resolves (Some \<lparr>token = ''cli-token''\<rparr>)
               | _ \<Rightarrow> Resolves (Some \<lparr>token = ''default-token''\<rparr>))\<rparr>"

section \<open>Properties\<close>

subsection \<open>Helper lemmas\<close>

lemma truthy_simps:
  "truthy None = False" "truthy (Some s) = (s \<noteq> [])"
  by (simp_all add: truthy_def)

lemma length_nibbles: "length (nibbles k n) = k"
  by (induction k arbitrary: n) simp_all

lemma length_randomUUID: "length (randomUUID random) = 36"
  by (simp add: randomUUID_def Let_def length_nibbles)

lemma randomUUID_not_empty [simp]: "randomUUID random \<noteq> []"
  using length_randomUUID [of random] by auto

lemma randomUUID_not_inherited [simp]: "randomUUID random \<notin> set object_prototype"
proof
  assume "randomUUID random \<in> set object_prototype"
  moreover have "\<forall>name \<in> set object_prototype. length name \<noteq> 36"
    by (simp add: object_prototype_def)
  ultimately have "length (randomUUID random) \<noteq> 36" by blast
  then show False by (simp add: length_randomUUID)
qed

lemma randomUUID_other_length [simp]:
  "length name \<noteq> 36 \<Longrightarrow> (randomUUID random = name) = False"
  "length name \<noteq> 36 \<Longrightarrow> (name = randomUUID random) = False"
  using length_randomUUID [of random] by auto

lemma lookup_js_stored: "entries name = Some t \<Longrightarrow> lookup_js entries name = Some (Stored t)"
  by (simp add: lookup_js_def)

lemma lookup_js_inherited:
  "entries name = None \<Longrightarrow> name \<in> set object_prototype \<Longrightarrow>
   lookup_js entries name = Some Inherited"
  by (simp add: lookup_js_def)

lemma lookup_js_missing:
  "entries name = None \<Longrightarrow> name \<notin> set object_prototype \<Longrightarrow> lookup_js entries name = None"
  by (simp add: lookup_js_def)

lemma handleRequest_externalToken:
  "externalToken (handleRequest es t st) = externalToken st"
proof (induction es arbitrary: st)
  case Nil
  show ?case by simp
next
  case (Cons e es)
  show ?case
    by (cases e) (simp_all add: Cons.IH onclose_def onsessioninitialized_def)
qed

lemma handleRequest_constructed:
  "constructed (handleRequest es t st) = constructed st"
proof (induction es arbitrary: st)
  case Nil
  show ?case by simp
next
  case (Cons e es)
  show ?case
    by (cases e) (simp_all add: Cons.IH onclose_def onsessioninitialized_def)
qed

lemma try_handleRequest_stored:
  "try_handleRequest authentication sdk (Stored t) established st =
     (Routed t established (throws sdk),
      if authentication = ''obo'' then (handleRequest (events sdk) t st)\<lparr>externalToken := None\<rparr>
      else handleRequest (events sdk) t st)"
  by (simp add: try_handleRequest_def Let_def)

lemma try_handleRequest_inherited:
  "try_handleRequest authentication sdk Inherited established st =
     (TypeError, if authentication = ''obo'' then st\<lparr>externalToken := None\<rparr> else st)"
  by (simp add: try_handleRequest_def Let_def)

lemma try_handleRequest_token:
  "externalToken (snd (try_handleRequest authentication sdk transport established st)) =
     (if authentication = ''obo'' then None else externalToken st)"
  by (cases transport)
     (simp_all add: try_handleRequest_stored try_handleRequest_inherited handleRequest_externalToken)

lemma new_transport_simps:
  "externalToken (new_transport st) = externalToken st"
  "transports (new_transport st) = transports st"
  "constructed (new_transport st) = Suc (constructed st)"
  "transport_sessionId (new_transport st) = (transport_sessionId st)(constructed st := None)"
  by (simp_all add: new_transport_def)

lemma extract_identity_cases:
  "extract_identity authentication req st =
     (if authentication = ''obo'' \<and> \<not> truthy (bearer (authorization req))
      then Inl user_token_required
      else Inr (if authentication = ''external'' \<or> authentication = ''obo''
                then st\<lparr>externalToken := bearer (authorization req)\<rparr> else st))"
  by (simp add: extract_identity_def Let_def)

lemma extract_identity_passes:
  assumes "extract_identity authentication req st = Inr st1"
  shows "transports st1 = transports st" "constructed st1 = constructed st"
    "transport_sessionId st1 = transport_sessionId st"
    "authentication \<noteq> ''obo'' \<or> truthy (bearer (authorization req))"
    "externalToken st1 =
       (if authentication = ''external'' \<or> authentication = ''obo''
        then bearer (authorization req) else externalToken st)"
  using assms by (auto simp: extract_identity_cases split: if_splits)

text \<open>The five ways through the POST handler.\<close>

lemma post_cases:
  obtains
    (rejected) "authentication = ''obo''" "\<not> truthy (bearer (authorization req))"
      "post authentication sdk req st = (Responded user_token_required, st)"
  | (reuse) st1 t where "extract_identity authentication req st = Inr st1"
      "truthy (mcp_session_id req)" "transports st (the (mcp_session_id req)) = Some t"
      "post authentication sdk req st = try_handleRequest authentication sdk (Stored t) False st1"
  | (inherited) st1 where "extract_identity authentication req st = Inr st1"
      "truthy (mcp_session_id req)" "transports st (the (mcp_session_id req)) = None"
      "the (mcp_session_id req) \<in> set object_prototype"
      "post authentication sdk req st = try_handleRequest authentication sdk Inherited False st1"
  | (establish) st1 where "extract_identity authentication req st = Inr st1"
      "\<not> truthy (mcp_session_id req)" "isInitializeBody (body req)"
      "post authentication sdk req st =
         try_handleRequest authentication sdk (Stored (constructed st)) True (new_transport st1)"
  | (no_session) st1 where "extract_identity authentication req st = Inr st1"
      "(truthy (mcp_session_id req) \<and> transports st (the (mcp_session_id req)) = None \<and>
        the (mcp_session_id req) \<notin> set object_prototype) \<or>
       (\<not> truthy (mcp_session_id req) \<and> \<not> isInitializeBody (body req))"
      "post authentication sdk req st = (Responded no_valid_session, st1)"
proof (cases "extract_identity authentication req st")
  case (Inl r)
  then have "authentication = ''obo''" "\<not> truthy (bearer (authorization req))"
    "r = user_token_required"
    by (auto simp: extract_identity_cases split: if_splits)
  with Inl rejected show ?thesis by (simp add: post_def)
next
  case (Inr st1)
  note same = extract_identity_passes(1,2) [OF Inr]
  show ?thesis
  proof (cases "truthy (mcp_session_id req)")
    case True
    show ?thesis
    proof (cases "transports st (the (mcp_session_id req))")
      case (Some t)
      then have "post authentication sdk req st =
          try_handleRequest authentication sdk (Stored t) False st1"
        using True by (simp add: post_def Inr same lookup_js_stored)
      with Inr True Some reuse show ?thesis by blast
    next
      case None
      show ?thesis
      proof (cases "the (mcp_session_id req) \<in> set object_prototype")
        case member: True
        then have "post authentication sdk req st =
            try_handleRequest authentication sdk Inherited False st1"
          using True None by (simp add: post_def Inr same lookup_js_inherited)
        with Inr True None member inherited show ?thesis by blast
      next
        case False
        then have "post authentication sdk req st = (Responded no_valid_session, st1)"
          using True None by (simp add: post_def Inr same lookup_js_missing)
        with Inr True None False no_session show ?thesis by blast
      qed
    qed
  next
    case False
    show ?thesis
    proof (cases "isInitializeBody (body req)")
      case True
      then have "post authentication sdk req st =
          try_handleRequest authentication sdk (Stored (constructed st)) True (new_transport st1)"
        using False by (simp add: post_def Inr same)
      with Inr False True establish show ?thesis by blast
    next
      case no_handshake: False
      then have "post authentication sdk req st = (Responded no_valid_session, st1)"
        using False by (simp add: post_def Inr)
      with Inr False no_handshake no_session show ?thesis by blast
    qed
  qed
qed

text \<open>The three ways through the handler of GET and DELETE.\<close>

lemma handleSessionRequest_cases:
  obtains
    (routed) t where "truthy (mcp_session_id req)"
      "transports st (the (mcp_session_id req)) = Some t"
      "handleSessionRequest sdk req st =
         (Routed t False (throws sdk), handleRequest (events sdk) t st)"
  | (inherited) "truthy (mcp_session_id req)" "transports st (the (mcp_session_id req)) = None"
      "the (mcp_session_id req) \<in> set object_prototype"
      "handleSessionRequest sdk req st = (TypeError, st)"
  | (no_session) "handleSessionRequest sdk req st = (Responded invalid_or_missing_session, st)"
proof (cases "truthy (mcp_session_id req)")
  case True
  show ?thesis
  proof (cases "transports st (the (mcp_session_id req))")
    case (Some t)
    then have "handleSessionRequest sdk req st =
        (Routed t False (throws sdk), handleRequest (events sdk) t st)"
      using True by (simp add: handleSessionRequest_def lookup_js_stored)
    with True Some routed show ?thesis by blast
  next
    case None
    show ?thesis
    proof (cases "the (mcp_session_id req) \<in> set object_prototype")
      case member: True
      then have "handleSessionRequest sdk req st = (TypeError, st)"
        using True None by (simp add: handleSessionRequest_def lookup_js_inherited)
      with True None member inherited show ?thesis by blast
    next
      case False
      then have "handleSessionRequest sdk req st = (Responded invalid_or_missing_session, st)"
        using True None by (simp add: handleSessionRequest_def lookup_js_missing)
      with no_session show ?thesis by blast
    qed
  qed
next
  case False
  then have "handleSessionRequest sdk req st = (Responded invalid_or_missing_session, st)"
    by (simp add: handleSessionRequest_def)
  with no_session show ?thesis by blast
qed

subsection \<open>Notifications of the transport library\<close>


lemma handleRequest_keeps_ids:
  "handshake_once True es \<Longrightarrow>
   transport_sessionId (handleRequest es t st) = transport_sessionId st"
proof (induction es arbitrary: st)
  case Nil
  show ?case by simp
next
  case (Cons e es)
  then have e: "e = Closed" by (cases e) auto
  show ?case using Cons by (simp add: e onclose_def)
qed

lemma handleRequest_other_ids:
  "t' \<noteq> t \<Longrightarrow> transport_sessionId (handleRequest es t st) t' = transport_sessionId st t'"
proof (induction es arbitrary: st)
  case Nil
  show ?case by simp
next
  case (Cons e es)
  show ?case using Cons by (cases e) (simp_all add: onclose_def onsessioninitialized_def)
qed



subsection \<open>The close notification\<close>


lemma onclose_removes_own_id:
  "truthy (transport_sessionId st t) \<Longrightarrow>
   transports (onclose t st) (the (transport_sessionId st t)) = None"
  by (simp add: onclose_def)




lemma onclose_consistent:
  "registry_consistent st \<Longrightarrow> registry_consistent (onclose t st)"
  by (auto simp: registry_consistent_def onclose_def split: if_splits)



subsection \<open>Consistency of the registry\<close>

lemma handshake_consistent:
  assumes "registry_consistent st" "transport_sessionId st t = None" "t < constructed st"
  shows "registry_consistent (notify t (SessionInitialized r) st)"
  using assms by (auto simp: registry_consistent_def onsessioninitialized_def)

lemma new_transport_consistent:
  "registry_consistent st \<Longrightarrow> registry_consistent (new_transport st)"
  by (auto simp: registry_consistent_def new_transport_def less_Suc_eq)

lemma handleRequest_consistent:
  assumes "registry_consistent st" "t < constructed st"
    and "handshake_once (transport_sessionId st t \<noteq> None) es"
  shows "registry_consistent (handleRequest es t st)"
  using assms
proof (induction es arbitrary: st)
  case Nil
  then show ?case by simp
next
  case (Cons e es)
  show ?case
  proof (cases e)
    case (SessionInitialized r)
    with Cons.prems have n: "transport_sessionId st t = None" "handshake_once True es"
      by auto
    have "registry_consistent (notify t e st)"
      unfolding SessionInitialized using Cons.prems(1) n(1) Cons.prems(2)
      by (rule handshake_consistent)
    moreover have "t < constructed (notify t e st)"
      using Cons.prems(2) by (simp add: SessionInitialized onsessioninitialized_def)
    moreover have "handshake_once (transport_sessionId (notify t e st) t \<noteq> None) es"
      using n(2) by (simp add: SessionInitialized onsessioninitialized_def)
    ultimately have "registry_consistent (handleRequest es t (notify t e st))"
      by (rule Cons.IH)
    then show ?thesis by simp
  next
    case Closed
    have "registry_consistent (notify t e st)"
      using Cons.prems(1) by (simp add: Closed onclose_consistent)
    moreover have "t < constructed (notify t e st)"
      using Cons.prems(2) by (simp add: Closed onclose_def)
    moreover have "handshake_once (transport_sessionId (notify t e st) t \<noteq> None) es"
      using Cons.prems(3) by (simp add: Closed onclose_def)
    ultimately have "registry_consistent (handleRequest es t (notify t e st))"
      by (rule Cons.IH)
    then show ?thesis by simp
  qed
qed

text \<open>
  The registry is consistent when the server starts, and every handler keeps it so
  while the transport library answers one handshake for each transport.
\<close>

lemma initial_state_consistent: "registry_consistent initial_state"
  by (simp add: registry_consistent_def initial_state_def)


lemma one_session_reached:
  "snd (post ''interactive'' \<lparr>events = [SessionInitialized 1], throws = False\<rparr>
          \<lparr>mcp_session_id = None, authorization = None, body = JsonObject (Some ''initialize'')\<rparr>
          initial_state) = one_session"
  by (simp add: post_def extract_identity_def try_handleRequest_def initial_state_def
        one_session_def new_transport_def onsessioninitialized_def isInitializeBody_def
        truthy_simps)

lemma externalToken_update_consistent:
  "registry_consistent (st\<lparr>externalToken := v\<rparr>) = registry_consistent st"
  by (simp add: registry_consistent_def)

lemma release_consistent:
  "registry_consistent (if c then st\<lparr>externalToken := None\<rparr> else st) = registry_consistent st"
  by (simp add: registry_consistent_def)

lemma identity_consistent:
  assumes "extract_identity authentication req st = Inr st1"
  shows "registry_consistent st1 = registry_consistent st"
  using extract_identity_passes(1-3) [OF assms] by (simp add: registry_consistent_def)

lemma post_consistent:
  assumes "registry_consistent st"
    and "handshake_once (truthy (mcp_session_id req)) (events sdk)"
  shows "registry_consistent (snd (post authentication sdk req st))"
proof (cases rule: post_cases [of authentication req sdk st])
  case rejected
  then show ?thesis using assms(1) by simp
next
  case (reuse st1 t)
  have st1: "registry_consistent st1" using assms(1) identity_consistent [OF reuse(1)] by simp
  with reuse(3) have "t < constructed st1" "transport_sessionId st1 t \<noteq> None"
    by (auto simp: registry_consistent_def extract_identity_passes [OF reuse(1)])
  with st1 assms(2) reuse(2) have "registry_consistent (handleRequest (events sdk) t st1)"
    by (intro handleRequest_consistent) simp_all
  then show ?thesis by (simp add: reuse(4) try_handleRequest_stored release_consistent)
next
  case (inherited st1)
  have "registry_consistent st1" using assms(1) identity_consistent [OF inherited(1)] by simp
  then show ?thesis by (simp add: inherited(5) try_handleRequest_inherited release_consistent)
next
  case (establish st1)
  have st1: "registry_consistent st1" using assms(1) identity_consistent [OF establish(1)] by simp
  have "registry_consistent (handleRequest (events sdk) (constructed st1) (new_transport st1))"
    using st1 assms(2) establish(2)
    by (intro handleRequest_consistent new_transport_consistent)
       (simp_all add: new_transport_simps)
  then show ?thesis
    by (simp add: establish(4) try_handleRequest_stored release_consistent
          extract_identity_passes(2) [OF establish(1)])
next
  case (no_session st1)
  have "registry_consistent st1" using assms(1) identity_consistent [OF no_session(1)] by simp
  then show ?thesis by (simp add: no_session(3))
qed

lemma handleSessionRequest_consistent:
  assumes "registry_consistent st" and "handshake_once True (events sdk)"
  shows "registry_consistent (snd (handleSessionRequest sdk req st))"
proof (cases rule: handleSessionRequest_cases [of req st sdk])
  case (routed t)
  with assms(1) have "t < constructed st" "transport_sessionId st t \<noteq> None"
    by (auto simp: registry_consistent_def)
  with assms have "registry_consistent (handleRequest (events sdk) t st)"
    by (intro handleRequest_consistent) simp_all
  then show ?thesis by (simp add: routed(3))
next
  case inherited
  then show ?thesis using assms(1) by simp
next
  case no_session
  then show ?thesis using assms(1) by simp
qed

subsection \<open>What the handlers do to the registry\<close>





lemma post_keeps_ids:
  assumes "handshake_once (truthy (mcp_session_id req)) (events sdk)"
    and "t' < constructed st"
  shows "transport_sessionId (snd (post authentication sdk req st)) t' = transport_sessionId st t'"
proof (cases rule: post_cases [of authentication req sdk st])
  case rejected
  then show ?thesis by simp
next
  case (reuse st1 t)
  with assms(1) have "transport_sessionId (handleRequest (events sdk) t st1) = transport_sessionId st1"
    by (simp add: handleRequest_keeps_ids)
  then show ?thesis
    by (simp add: reuse(4) try_handleRequest_stored extract_identity_passes(3) [OF reuse(1)])
next
  case (inherited st1)
  then show ?thesis
    by (simp add: try_handleRequest_inherited extract_identity_passes(3) [OF inherited(1)])
next
  case (establish st1)
  have "transport_sessionId (handleRequest (events sdk) (constructed st) (new_transport st1)) t'
        = transport_sessionId (new_transport st1) t'"
    using assms(2) by (intro handleRequest_other_ids) simp
  then show ?thesis
    using assms(2)
    by (simp add: establish(4) try_handleRequest_stored new_transport_simps
          extract_identity_passes(2,3) [OF establish(1)])
next
  case (no_session st1)
  then show ?thesis by (simp add: extract_identity_passes(3) [OF no_session(1)])
qed

lemma handleSessionRequest_keeps_ids:
  assumes "handshake_once True (events sdk)"
  shows "transport_sessionId (snd (handleSessionRequest sdk req st)) = transport_sessionId st"
  by (cases rule: handleSessionRequest_cases [of req st sdk])
     (simp_all add: handleRequest_keeps_ids [OF assms])








subsection \<open>The transient token\<close>

text \<open>
  C1, as stated, fails: in external mode a POST that was handed to a session's connection
  and answered leaves the bearer value of its \<^verbatim>\<open>Authorization\<close> header in \<^verbatim>\<open>externalToken\<close>.
  The \<^verbatim>\<open>finally\<close> block clears the variable in on-behalf-of mode only.
\<close>

theorem external_token_not_cleared_counterexample:
  "fst (post ''external'' quiet_run
          \<lparr>mcp_session_id = Some (randomUUID 1), authorization = Some ''Bearer T'',
           body = JsonObject (Some ''tools/call'')\<rparr>
          one_session) = Routed 0 False False \<and>
   externalToken (snd (post ''external'' quiet_run
          \<lparr>mcp_session_id = Some (randomUUID 1), authorization = Some ''Bearer T'',
           body = JsonObject (Some ''tools/call'')\<rparr>
          one_session)) = Some ''T''"
  by (simp add: post_def extract_identity_def try_handleRequest_def lookup_js_def bearer_def
        index_js_def truthy_simps one_session_def quiet_run_def)

text \<open>
  In on-behalf-of mode a POST that names no registered session and is no handshake is
  answered before the \<^verbatim>\<open>try\<close> block is entered, and the token stays in the variable.
\<close>

lemma obo_rejected_post_keeps_token:
  "post ''obo'' quiet_run
        \<lparr>mcp_session_id = Some ''unknown'', authorization = Some ''Bearer U'', body = NoBody\<rparr>
        one_session
     = (Responded no_valid_session, one_session\<lparr>externalToken := Some ''U''\<rparr>)"
  by (simp add: post_def extract_identity_def lookup_js_def object_prototype_def bearer_def
        index_js_def truthy_simps one_session_def quiet_run_def isInitializeBody_def)

text \<open>
  C1, amended: in on-behalf-of mode, after a POST that was handed to a session's
  connection the variable \<^verbatim>\<open>externalToken\<close> is empty, whether the connection's handling
  returned or threw. In external mode the variable is not cleared: after every POST it
  holds the bearer value of that request's \<^verbatim>\<open>Authorization\<close> header, which is nothing when
  the header carries none, so that a later POST that supplies no token finds none. In
  every other mode the POST handler leaves the variable as it was.
\<close>

theorem transient_token_after_post:
  "(authentication = ''obo'' \<and> fst (post authentication sdk req st) = Routed t established threw \<longrightarrow>
      externalToken (snd (post authentication sdk req st)) = None) \<and>
   (authentication = ''external'' \<longrightarrow>
      externalToken (snd (post authentication sdk req st)) = bearer (authorization req)) \<and>
   (authentication \<noteq> ''external'' \<and> authentication \<noteq> ''obo'' \<longrightarrow>
      externalToken (snd (post authentication sdk req st)) = externalToken st)"
proof (cases rule: post_cases [of authentication req sdk st])
  case rejected
  then have "fst (post authentication sdk req st) = Responded user_token_required"
    "snd (post authentication sdk req st) = st"
    by simp_all
  with rejected(1) show ?thesis by auto
next
  case (reuse st1 t')
  have "externalToken (snd (post authentication sdk req st)) =
          (if authentication = ''obo'' then None else externalToken st1)"
    by (simp add: reuse(4) try_handleRequest_token)
  with extract_identity_passes(5) [OF reuse(1)] show ?thesis by auto
next
  case (inherited st1)
  have "externalToken (snd (post authentication sdk req st)) =
          (if authentication = ''obo'' then None else externalToken st1)"
    by (simp add: inherited(5) try_handleRequest_token)
  with extract_identity_passes(5) [OF inherited(1)] show ?thesis by auto
next
  case (establish st1)
  have "externalToken (snd (post authentication sdk req st)) =
          (if authentication = ''obo'' then None else externalToken st1)"
    by (simp add: establish(4) try_handleRequest_token new_transport_simps)
  with extract_identity_passes(5) [OF establish(1)] show ?thesis by auto
next
  case (no_session st1)
  then have "fst (post authentication sdk req st) = Responded no_valid_session"
    "externalToken (snd (post authentication sdk req st)) = externalToken st1"
    by simp_all
  with extract_identity_passes(5) [OF no_session(1)] show ?thesis by auto
qed

theorem transient_token_after_post_witness:
  "externalToken (snd (post ''obo'' \<lparr>events = [], throws = True\<rparr>
      \<lparr>mcp_session_id = Some (randomUUID 1), authorization = Some ''Bearer U'',
       body = JsonObject (Some ''tools/call'')\<rparr> one_session)) = None \<and>
   externalToken (snd (post ''external'' quiet_run
      \<lparr>mcp_session_id = Some (randomUUID 1), authorization = None,
       body = JsonObject (Some ''tools/call'')\<rparr>
      (one_session\<lparr>externalToken := Some ''T''\<rparr>))) = None \<and>
   externalToken (snd (post ''interactive'' quiet_run
      \<lparr>mcp_session_id = Some (randomUUID 1), authorization = Some ''Bearer T'',
       body = JsonObject (Some ''tools/call'')\<rparr> one_session)) = None"
  using transient_token_after_post
          [of "''obo''" "\<lparr>events = [], throws = True\<rparr>"
              "\<lparr>mcp_session_id = Some (randomUUID 1), authorization = Some ''Bearer U'',
                body = JsonObject (Some ''tools/call'')\<rparr>" one_session 0 False True]
        transient_token_after_post
          [of "''external''" quiet_run
              "\<lparr>mcp_session_id = Some (randomUUID 1), authorization = None,
                body = JsonObject (Some ''tools/call'')\<rparr>"
              "one_session\<lparr>externalToken := Some ''T''\<rparr>"]
        transient_token_after_post
          [of "''interactive''" quiet_run
              "\<lparr>mcp_session_id = Some (randomUUID 1), authorization = Some ''Bearer T'',
                body = JsonObject (Some ''tools/call'')\<rparr>" one_session]
  by (simp add: post_def extract_identity_def try_handleRequest_def lookup_js_def bearer_def
        index_js_def truthy_simps one_session_def)

subsection \<open>The wrapped authenticator\<close>

text \<open>
  C2: for every call of the wrapper that \<^verbatim>\<open>main\<close> puts around the authenticator: an
  assertion passed by the caller is forwarded to the backend; otherwise, when the
  variable \<^verbatim>\<open>externalToken\<close> is set, its value is forwarded; otherwise the backend is called
  with no assertion. Passed and set are the tests of the source, \<^verbatim>\<open>if (userAssertion)\<close> and
  \<^verbatim>\<open>if (externalToken)\<close>, which an empty string fails as \<^verbatim>\<open>undefined\<close> does. The three cases
  cover every call.
\<close>

theorem authenticator_resolution_order:
  "(truthy userAssertion \<longrightarrow>
      authenticator orig held userAssertion = orig userAssertion) \<and>
   (\<not> truthy userAssertion \<and> truthy held \<longrightarrow>
      authenticator orig held userAssertion = orig held) \<and>
   (\<not> truthy userAssertion \<and> \<not> truthy held \<longrightarrow>
      authenticator orig held userAssertion = orig None)"
proof (cases "truthy userAssertion")
  case True
  then show ?thesis by (simp add: authenticator_def)
next
  case False
  then show ?thesis by (cases "truthy held") (simp_all add: authenticator_def)
qed

theorem authenticator_resolution_order_witness:
  "authenticator (\<lambda>a. fst (acquire refusing_libraries ExternalAuth a)) (Some ''T'') (Some ''A'') = Inr ''A'' \<and>
   authenticator (\<lambda>a. fst (acquire refusing_libraries ExternalAuth a)) (Some ''T'') None = Inr ''T'' \<and>
   authenticator (\<lambda>a. fst (acquire refusing_libraries ExternalAuth a)) None None =
     Inl (Error ''External token must be provided for 'external' auth type.'')"
  using authenticator_resolution_order
          [of "Some ''A''" "\<lambda>a. fst (acquire refusing_libraries ExternalAuth a)" "Some ''T''"]
        authenticator_resolution_order
          [of None "\<lambda>a. fst (acquire refusing_libraries ExternalAuth a)" "Some ''T''"]
        authenticator_resolution_order
          [of None "\<lambda>a. fst (acquire refusing_libraries ExternalAuth a)" None]
  by (simp add: truthy_simps)

subsection \<open>Routing of a POST\<close>

text \<open>
  C3, as stated, fails: in on-behalf-of mode a POST that names a registered session and
  carries no bearer value is not given to that session's connection; it is answered
  with the 400 of the on-behalf-of check, which is not the JSON-RPC error -32000.
\<close>

theorem registered_session_not_routed_counterexample:
  "transports one_session (randomUUID 1) = Some 0 \<and>
   fst (post ''obo'' quiet_run
          \<lparr>mcp_session_id = Some (randomUUID 1), authorization = None,
           body = JsonObject (Some ''tools/call'')\<rparr>
          one_session) = Responded user_token_required \<and>
   user_token_required \<noteq> no_valid_session"
  by (simp add: post_def extract_identity_def bearer_def truthy_simps one_session_def
        user_token_required_def no_valid_session_def)

text \<open>
  A session id that is the name of a member of \<^verbatim>\<open>Object.prototype\<close> and is not
  registered is not answered with a 400 either: the handlers find the inherited member in
  \<^verbatim>\<open>transports\<close>, take it for a transport and throw.
\<close>

lemma inherited_name_throws:
  "post ''interactive'' quiet_run
        \<lparr>mcp_session_id = Some ''constructor'', authorization = None,
         body = JsonObject (Some ''tools/call'')\<rparr> one_session
     = (TypeError, one_session) \<and>
   handleSessionRequest quiet_run
        \<lparr>mcp_session_id = Some ''__proto__'', authorization = None, body = NoBody\<rparr> one_session
     = (TypeError, one_session)"
  by (simp add: post_def handleSessionRequest_def extract_identity_def try_handleRequest_def
        lookup_js_def object_prototype_def truthy_simps one_session_def)

text \<open>
  C3, amended: for every POST that the on-behalf-of check lets pass (the mode is not
  on-behalf-of, or the \<^verbatim>\<open>Authorization\<close> header carries a bearer value): when the
  \<^verbatim>\<open>mcp-session-id\<close> header names a registered session, the frame is given to that
  session's connection, whatever the body is; when the header is absent or empty and the
  body is a handshake, a new connection is constructed and the frame is given to it, and
  the id with which the transport library answers the handshake is registered for it;
  in every other case in which the session id is not the name of a member of
  \<^verbatim>\<open>Object.prototype\<close> (a session id that is not registered, or no session id and a body
  that is no handshake) the answer is status 400 with the JSON-RPC error -32000 and a
  null id, no connection gets the frame, and the registry and the connections are as
  they were.
\<close>

theorem post_routing:
  assumes "authentication \<noteq> ''obo'' \<or> truthy (bearer (authorization req))"
  shows
    "(truthy (mcp_session_id req) \<and> transports st (the (mcp_session_id req)) = Some t \<longrightarrow>
        fst (post authentication sdk req st) = Routed t False (throws sdk)) \<and>
     (\<not> truthy (mcp_session_id req) \<and> isInitializeBody (body req) \<longrightarrow>
        fst (post authentication sdk req st) = Routed (constructed st) True (throws sdk) \<and>
        constructed (snd (post authentication sdk req st)) = Suc (constructed st) \<and>
        (events sdk = [SessionInitialized r] \<longrightarrow>
           transports (snd (post authentication sdk req st)) (randomUUID r)
             = Some (constructed st) \<and>
           transport_sessionId (snd (post authentication sdk req st)) (constructed st)
             = Some (randomUUID r))) \<and>
     ((truthy (mcp_session_id req) \<and> transports st (the (mcp_session_id req)) = None \<and>
       the (mcp_session_id req) \<notin> set object_prototype) \<or>
      (\<not> truthy (mcp_session_id req) \<and> \<not> isInitializeBody (body req)) \<longrightarrow>
        fst (post authentication sdk req st) = Responded no_valid_session \<and>
        status no_valid_session = 400 \<and>
        payload no_valid_session =
          JsonRpcError (- 32000) ''Bad Request: No valid session ID provided'' None \<and>
        transports (snd (post authentication sdk req st)) = transports st \<and>
        transport_sessionId (snd (post authentication sdk req st)) = transport_sessionId st \<and>
        constructed (snd (post authentication sdk req st)) = constructed st)"
proof (cases rule: post_cases [of authentication req sdk st])
  case rejected
  with assms show ?thesis by simp
next
  case (reuse st1 t')
  then show ?thesis by (simp add: try_handleRequest_stored)
next
  case (inherited st1)
  then show ?thesis by simp
next
  case (establish st1)
  note same = extract_identity_passes(1-3) [OF establish(1)]
  have "events sdk = [SessionInitialized r] \<longrightarrow>
      transports (snd (post authentication sdk req st)) (randomUUID r) = Some (constructed st) \<and>
      transport_sessionId (snd (post authentication sdk req st)) (constructed st)
        = Some (randomUUID r)"
    by (simp add: establish(4) try_handleRequest_stored onsessioninitialized_def)
  moreover have "constructed (snd (post authentication sdk req st)) = Suc (constructed st)"
    by (simp add: establish(4) try_handleRequest_stored handleRequest_constructed
          new_transport_simps same)
  moreover have "fst (post authentication sdk req st) = Routed (constructed st) True (throws sdk)"
    by (simp add: establish(4) try_handleRequest_stored)
  ultimately show ?thesis using establish(2,3) by simp
next
  case (no_session st1)
  note same = extract_identity_passes(1-3) [OF no_session(1)]
  have "fst (post authentication sdk req st) = Responded no_valid_session \<and>
        status no_valid_session = 400 \<and>
        payload no_valid_session =
          JsonRpcError (- 32000) ''Bad Request: No valid session ID provided'' None \<and>
        transports (snd (post authentication sdk req st)) = transports st \<and>
        transport_sessionId (snd (post authentication sdk req st)) = transport_sessionId st \<and>
        constructed (snd (post authentication sdk req st)) = constructed st"
    by (simp add: no_session(3) same no_valid_session_def)
  then show ?thesis using no_session(2) by auto
qed

theorem post_routing_witness:
  "fst (post ''obo'' \<lparr>events = [], throws = True\<rparr>
          \<lparr>mcp_session_id = Some (randomUUID 1), authorization = Some ''Bearer U'',
           body = JsonArray\<rparr>
          one_session) = Routed 0 False True \<and>
   fst (post ''interactive'' \<lparr>events = [SessionInitialized 2], throws = False\<rparr>
          \<lparr>mcp_session_id = None, authorization = None, body = JsonObject (Some ''initialize'')\<rparr>
          one_session) = Routed 1 True False \<and>
   transports (snd (post ''interactive'' \<lparr>events = [SessionInitialized 2], throws = False\<rparr>
          \<lparr>mcp_session_id = None, authorization = None, body = JsonObject (Some ''initialize'')\<rparr>
          one_session)) (randomUUID 2) = Some 1 \<and>
   fst (post ''external'' quiet_run
          \<lparr>mcp_session_id = Some ''s9'', authorization = Some ''Bearer T'',
           body = JsonObject (Some ''initialize'')\<rparr>
          one_session) =
     Responded \<lparr>status = 400,
                payload = JsonRpcError (- 32000) ''Bad Request: No valid session ID provided'' None\<rparr> \<and>
   fst (post ''env'' quiet_run
          \<lparr>mcp_session_id = None, authorization = None, body = JsonObject (Some ''tools/call'')\<rparr>
          one_session) =
     Responded \<lparr>status = 400,
                payload = JsonRpcError (- 32000) ''Bad Request: No valid session ID provided'' None\<rparr>"
proof -
  have passes: "''obo'' \<noteq> ''obo'' \<or> truthy (bearer (Some ''Bearer U''))"
    by (simp add: bearer_def index_js_def truthy_simps)
  have interactive: "''interactive'' \<noteq> ''obo'' \<or> truthy (bearer None)" by simp
  have external: "''external'' \<noteq> ''obo'' \<or> truthy (bearer (Some ''Bearer T''))" by simp
  have env: "''env'' \<noteq> ''obo'' \<or> truthy (bearer None)" by simp
  have unknown: "transports one_session ''s9'' = None" "''s9'' \<notin> set object_prototype"
    by (simp_all add: one_session_def object_prototype_def)
  have registered: "transports one_session (randomUUID 1) = Some 0"
    by (simp add: one_session_def)
  have first: "constructed one_session = 1"
    by (simp add: one_session_def)
  show ?thesis
    using post_routing
            [of "''obo''"
                "\<lparr>mcp_session_id = Some (randomUUID 1), authorization = Some ''Bearer U'',
                  body = JsonArray\<rparr>"
                one_session 0 "\<lparr>events = [], throws = True\<rparr>"]
          post_routing
            [of "''interactive''"
                "\<lparr>mcp_session_id = None, authorization = None, body = JsonObject (Some ''initialize'')\<rparr>"
                one_session 0 "\<lparr>events = [SessionInitialized 2], throws = False\<rparr>" 2]
          post_routing
            [of "''external''"
                "\<lparr>mcp_session_id = Some ''s9'', authorization = Some ''Bearer T'',
                  body = JsonObject (Some ''initialize'')\<rparr>"
                one_session 0 quiet_run]
          post_routing
            [of "''env''"
                "\<lparr>mcp_session_id = None, authorization = None, body = JsonObject (Some ''tools/call'')\<rparr>"
                one_session 0 quiet_run]
          passes interactive external env unknown registered first
    by (simp add: truthy_simps isInitializeBody_def no_valid_session_def)
qed

subsection \<open>The on-behalf-of backend\<close>

text \<open>
  C4: \<^verbatim>\<open>createAuthenticator\<close> fails for the on-behalf-of backend when the client id or the
  client secret is missing (no options, no member, or an empty string), and a call of the
  backend with no user assertion fails at call time, whatever the service credentials of
  the backend are and whatever the identity provider would answer.
\<close>

theorem obo_requires_credentials_and_assertion:
  "(\<not> truthy (Option.bind opts clientId) \<or> \<not> truthy (Option.bind opts clientSecret) \<longrightarrow>
      createAuthenticator ''obo'' tenantId opts =
        Inl (Error ''OBO requires clientId and clientSecret.'')) \<and>
   (\<not> truthy userAssertion \<longrightarrow>
      fst (acquire libs (OboAuth obo) userAssertion) =
        Inl (Error ''OBO flow requires a user token to exchange.''))"
proof -
  have construction:
    "\<not> truthy (Option.bind opts clientId) \<or> \<not> truthy (Option.bind opts clientSecret) \<longrightarrow>
       createAuthenticator ''obo'' tenantId opts =
         Inl (Error ''OBO requires clientId and clientSecret.'')"
    by (simp add: createAuthenticator_def)
  have call:
    "\<not> truthy userAssertion \<longrightarrow>
       fst (acquire libs (OboAuth obo) userAssertion) =
         Inl (Error ''OBO flow requires a user token to exchange.'')"
    by simp
  from construction call show ?thesis by (rule conjI)
qed

theorem obo_requires_credentials_and_assertion_witness:
  "createAuthenticator ''obo'' (Some ''contoso'') None =
     Inl (Error ''OBO requires clientId and clientSecret.'') \<and>
   createAuthenticator ''obo'' None (Some \<lparr>clientId = Some ''app'', clientSecret = None\<rparr>) =
     Inl (Error ''OBO requires clientId and clientSecret.'') \<and>
   fst (acquire granting_libraries (OboAuth (OboAuthenticator ''app'' ''secret'' None)) None) =
     Inl (Error ''OBO flow requires a user token to exchange.'')"
  using obo_requires_credentials_and_assertion
          [of None "Some ''contoso''" None granting_libraries "OboAuthenticator ''app'' ''secret'' None"]
        obo_requires_credentials_and_assertion
          [of "Some \<lparr>clientId = Some ''app'', clientSecret = None\<rparr>" None None granting_libraries
              "OboAuthenticator ''app'' ''secret'' None"]
  by (simp add: truthy_simps)

subsection \<open>The external backend\<close>

text \<open>
  C5: the external backend of \<^verbatim>\<open>createAuthenticator\<close> returns the assertion it is called
  with unchanged, and fails with an error, giving no token, when it is called with none;
  \<^verbatim>\<open>tokenProvider\<close> of \<^verbatim>\<open>main\<close> does the same with the variable \<^verbatim>\<open>externalToken\<close>, the one
  token it is given. Supplied is the test of the source, \<^verbatim>\<open>if (!externalToken)\<close>: an empty
  string counts as absent. The two cases cover every call.
\<close>

theorem external_passthrough:
  "createAuthenticator ''external'' tenantId opts = Inr ExternalAuth \<and>
   (truthy userAssertion \<longrightarrow>
      fst (acquire libs ExternalAuth userAssertion) = Inr (the userAssertion)) \<and>
   (\<not> truthy userAssertion \<longrightarrow>
      fst (acquire libs ExternalAuth userAssertion) =
        Inl (Error ''External token must be provided for 'external' auth type.'')) \<and>
   (truthy held \<longrightarrow> tokenProvider held = Inr (the held)) \<and>
   (\<not> truthy held \<longrightarrow>
      tokenProvider held =
        Inl (Error ''External token must be provided for 'external' auth type.''))"
proof -
  have factory: "createAuthenticator ''external'' tenantId opts = Inr ExternalAuth"
    by (simp add: createAuthenticator_def)
  have backend:
    "(truthy userAssertion \<longrightarrow>
        fst (acquire libs ExternalAuth userAssertion) = Inr (the userAssertion)) \<and>
     (\<not> truthy userAssertion \<longrightarrow>
        fst (acquire libs ExternalAuth userAssertion) =
          Inl (Error ''External token must be provided for 'external' auth type.''))"
    by simp
  have provider:
    "(truthy held \<longrightarrow> tokenProvider held = Inr (the held)) \<and>
     (\<not> truthy held \<longrightarrow>
        tokenProvider held =
          Inl (Error ''External token must be provided for 'external' auth type.''))"
    by (simp add: tokenProvider_def)
  from factory backend provider show ?thesis by blast
qed

theorem external_passthrough_witness:
  "fst (acquire refusing_libraries ExternalAuth (Some ''T'')) = Inr ''T'' \<and>
   fst (acquire granting_libraries ExternalAuth None) =
     Inl (Error ''External token must be provided for 'external' auth type.'') \<and>
   tokenProvider (Some ''T'') = Inr ''T'' \<and>
   tokenProvider None = Inl (Error ''External token must be provided for 'external' auth type.'')"
  using external_passthrough [of None None "Some ''T''" refusing_libraries "Some ''T''"]
        external_passthrough [of None None None granting_libraries None]
  by (simp add: truthy_simps)

text \<open>
  In external mode \<^verbatim>\<open>main\<close> wraps \<^verbatim>\<open>tokenProvider\<close>, which takes no argument: the wrapped
  authenticator returns the token held in \<^verbatim>\<open>externalToken\<close>, whatever assertion the call
  passes.
\<close>

lemma external_mode_returns_held_token:
  "main_authenticator ''external'' tenant AZURE_CLIENT_ID AZURE_CLIENT_SECRET = Inr TokenProvider \<and>
   authenticator (\<lambda>a. fst (originalAuthenticator libs held TokenProvider a)) held userAssertion =
     tokenProvider held"
  by (simp add: main_authenticator_def authenticator_def)

subsection \<open>The interactive backend\<close>

lemma getToken_no_account:
  "accountId this = None \<Longrightarrow>
   getToken libs this =
     (case acquireTokenInteractive libs of
        Rejects \<Rightarrow> (Inl Rejection, this, [Interactive])
      | Resolves r \<Rightarrow> (usable_token r, this\<lparr>accountId := account r\<rparr>, [Interactive]))"
  by (simp add: getToken_def split: promise.splits)

lemma getToken_silent_ok:
  "accountId this = Some acc \<Longrightarrow> acquireTokenSilent libs acc = Resolves r \<Longrightarrow>
   getToken libs this = (usable_token r, this, [Silent acc])"
  by (simp add: getToken_def)

lemma getToken_silent_fails:
  "accountId this = Some acc \<Longrightarrow> acquireTokenSilent libs acc = Rejects \<Longrightarrow>
   getToken libs this =
     (case acquireTokenInteractive libs of
        Rejects \<Rightarrow> (Inl Rejection, this, [Silent acc, Interactive])
      | Resolves r \<Rightarrow> (usable_token r, this\<lparr>accountId := account r\<rparr>, [Silent acc, Interactive]))"
  by (simp add: getToken_def split: promise.splits)

lemma usable_token_failure:
  "usable_token r = Inl e \<Longrightarrow>
   e = Error ''Failed to obtain Azure DevOps OAuth token.'' \<and> accessToken r = []"
  by (auto simp: usable_token_def split: if_splits)

lemma getToken_failure:
  assumes "fst (getToken libs this) = Inl e"
  shows "(e = Rejection \<and> acquireTokenInteractive libs = Rejects) \<or>
         (e = Error ''Failed to obtain Azure DevOps OAuth token.'' \<and>
          (\<exists>r. accessToken r = [] \<and>
             (acquireTokenInteractive libs = Resolves r \<or>
              (\<exists>acc. accountId this = Some acc \<and> acquireTokenSilent libs acc = Resolves r))))"
proof (cases "accountId this")
  case None
  show ?thesis
  proof (cases "acquireTokenInteractive libs")
    case (Resolves r)
    with None assms have "usable_token r = Inl e"
      by (simp add: getToken_no_account)
    from usable_token_failure [OF this] Resolves show ?thesis by auto
  next
    case Rejects
    with None assms show ?thesis by (simp add: getToken_no_account)
  qed
next
  case (Some acc)
  show ?thesis
  proof (cases "acquireTokenSilent libs acc")
    case (Resolves r)
    with Some assms have "usable_token r = Inl e"
      by (simp add: getToken_silent_ok)
    from usable_token_failure [OF this] Resolves Some show ?thesis by auto
  next
    case Rejects
    note silent = this
    show ?thesis
    proof (cases "acquireTokenInteractive libs")
      case (Resolves r)
      with Some silent assms have "usable_token r = Inl e"
        by (simp add: getToken_silent_fails)
      from usable_token_failure [OF this] Resolves show ?thesis by auto
    next
      case Rejects
      with Some silent assms show ?thesis by (simp add: getToken_silent_fails)
    qed
  qed
qed

text \<open>
  C6, as stated, fails in its last part: \<^verbatim>\<open>getToken\<close> also fails when the interactive
  flow itself is rejected, so that no flow completes at all. Here the silent refresh of
  the cached account and the interactive flow after it are both rejected.
\<close>

theorem interactive_flow_rejected_counterexample:
  "fst (getToken refusing_libraries
          \<lparr>accountId = Some ''alice'',
           publicClientApp_authority = ''https://login.microsoftonline.com/common''\<rparr>)
     = Inl Rejection \<and>
   acquireTokenSilent refusing_libraries ''alice'' = Rejects \<and>
   acquireTokenInteractive refusing_libraries = Rejects"
  by (simp add: getToken_def refusing_libraries_def)

text \<open>
  C6, amended: a call of the interactive backend with no cached account runs the
  interactive flow, and nothing else, and caches the account of its result; a call with a
  cached account first attempts the silent refresh with that account; when the refresh
  succeeds the call runs no interactive flow and keeps the account; when the refresh is
  rejected the call runs the interactive flow once and takes its result. The call fails
  only when the interactive flow itself is rejected, or when the flow that completed
  gave no usable access token.
\<close>

theorem interactive_delegated:
  "(accountId this = None \<longrightarrow>
      snd (snd (getToken libs this)) = [Interactive] \<and>
      (\<forall>r'. acquireTokenInteractive libs = Resolves r' \<longrightarrow>
         accountId (fst (snd (getToken libs this))) = account r')) \<and>
   (accountId this = Some acc \<longrightarrow>
      hd (snd (snd (getToken libs this))) = Silent acc) \<and>
   (accountId this = Some acc \<and> acquireTokenSilent libs acc = Resolves r \<longrightarrow>
      snd (snd (getToken libs this)) = [Silent acc] \<and>
      fst (snd (getToken libs this)) = this \<and>
      (accessToken r \<noteq> [] \<longrightarrow> fst (getToken libs this) = Inr (accessToken r))) \<and>
   (accountId this = Some acc \<and> acquireTokenSilent libs acc = Rejects \<longrightarrow>
      snd (snd (getToken libs this)) = [Silent acc, Interactive] \<and>
      (\<forall>r'. acquireTokenInteractive libs = Resolves r' \<longrightarrow>
         accountId (fst (snd (getToken libs this))) = account r' \<and>
         (accessToken r' \<noteq> [] \<longrightarrow> fst (getToken libs this) = Inr (accessToken r')))) \<and>
   (\<forall>e. fst (getToken libs this) = Inl e \<longrightarrow>
      (e = Rejection \<and> acquireTokenInteractive libs = Rejects) \<or>
      (e = Error ''Failed to obtain Azure DevOps OAuth token.'' \<and>
       (\<exists>r'. accessToken r' = [] \<and>
          (acquireTokenInteractive libs = Resolves r' \<or>
           (\<exists>a. accountId this = Some a \<and> acquireTokenSilent libs a = Resolves r')))))"
proof -
  have first: "accountId this = None \<longrightarrow>
      snd (snd (getToken libs this)) = [Interactive] \<and>
      (\<forall>r'. acquireTokenInteractive libs = Resolves r' \<longrightarrow>
         accountId (fst (snd (getToken libs this))) = account r')"
    by (auto simp: getToken_no_account split: promise.splits)
  have attempt: "accountId this = Some acc \<longrightarrow>
      hd (snd (snd (getToken libs this))) = Silent acc"
    by (cases "acquireTokenSilent libs acc")
       (auto simp: getToken_silent_ok getToken_silent_fails split: promise.splits)
  have silent: "accountId this = Some acc \<and> acquireTokenSilent libs acc = Resolves r \<longrightarrow>
      snd (snd (getToken libs this)) = [Silent acc] \<and>
      fst (snd (getToken libs this)) = this \<and>
      (accessToken r \<noteq> [] \<longrightarrow> fst (getToken libs this) = Inr (accessToken r))"
    by (auto simp: getToken_silent_ok usable_token_def)
  have fallback: "accountId this = Some acc \<and> acquireTokenSilent libs acc = Rejects \<longrightarrow>
      snd (snd (getToken libs this)) = [Silent acc, Interactive] \<and>
      (\<forall>r'. acquireTokenInteractive libs = Resolves r' \<longrightarrow>
         accountId (fst (snd (getToken libs this))) = account r' \<and>
         (accessToken r' \<noteq> [] \<longrightarrow> fst (getToken libs this) = Inr (accessToken r')))"
    by (auto simp: getToken_silent_fails usable_token_def split: promise.splits)
  have failure: "\<forall>e. fst (getToken libs this) = Inl e \<longrightarrow>
      (e = Rejection \<and> acquireTokenInteractive libs = Rejects) \<or>
      (e = Error ''Failed to obtain Azure DevOps OAuth token.'' \<and>
       (\<exists>r'. accessToken r' = [] \<and>
          (acquireTokenInteractive libs = Resolves r' \<or>
           (\<exists>a. accountId this = Some a \<and> acquireTokenSilent libs a = Resolves r'))))"
    using getToken_failure by blast
  from first attempt silent fallback failure show ?thesis by blast
qed

theorem interactive_delegated_witness:
  "getToken granting_libraries (OAuthAuthenticator None) =
     (Inr ''interactive-token'', (OAuthAuthenticator None)\<lparr>accountId := Some ''alice''\<rparr>,
      [Interactive]) \<and>
   getToken granting_libraries ((OAuthAuthenticator None)\<lparr>accountId := Some ''alice''\<rparr>) =
     (Inr ''silent-token'', (OAuthAuthenticator None)\<lparr>accountId := Some ''alice''\<rparr>,
      [Silent ''alice'']) \<and>
   getToken (granting_libraries\<lparr>acquireTokenSilent := \<lambda>acc. Rejects\<rparr>)
      ((OAuthAuthenticator None)\<lparr>accountId := Some ''alice''\<rparr>) =
     (Inr ''interactive-token'', (OAuthAuthenticator None)\<lparr>accountId := Some ''alice''\<rparr>,
      [Silent ''alice'', Interactive]) \<and>
   fst (getToken
      (refusing_libraries\<lparr>acquireTokenInteractive := Resolves \<lparr>accessToken = [], account = None\<rparr>\<rparr>)
      (OAuthAuthenticator None)) =
     Inl (Error ''Failed to obtain Azure DevOps OAuth token.'')"
  using interactive_delegated
          [of "OAuthAuthenticator None" granting_libraries]
        interactive_delegated
          [of "(OAuthAuthenticator None)\<lparr>accountId := Some ''alice''\<rparr>" granting_libraries "''alice''"
              "\<lparr>accessToken = ''silent-token'', account = Some ''alice''\<rparr>"]
        interactive_delegated
          [of "(OAuthAuthenticator None)\<lparr>accountId := Some ''alice''\<rparr>"
              "granting_libraries\<lparr>acquireTokenSilent := \<lambda>acc. Rejects\<rparr>" "''alice''"]
        interactive_delegated
          [of "OAuthAuthenticator None"
              "refusing_libraries\<lparr>acquireTokenInteractive := Resolves \<lparr>accessToken = [], account = None\<rparr>\<rparr>"]
  by (simp add: getToken_def usable_token_def OAuthAuthenticator_def granting_libraries_def
        refusing_libraries_def truthy_simps)

subsection \<open>The service credential chain\<close>

lemma first_token_append:
  "first_token libs (xs @ ys) =
     (case first_token libs xs of Some t \<Rightarrow> Some t | None \<Rightarrow> first_token libs ys)"
  by (induction xs) (auto split: promise.splits option.splits)

lemma credential_getToken_first_token:
  "first_token libs (sources c) =
     (case credential_getToken libs c of Resolves r \<Rightarrow> r | Rejects \<Rightarrow> None)"
  by (induction c) (auto simp: first_token_append split: promise.splits option.splits)

lemma acquire_first_token:
  "(first_token libs (sources c) = Some r \<longrightarrow>
      fst (acquire libs (CredentialAuth c) a) = Inr (token r)) \<and>
   (first_token libs (sources c) = None \<longrightarrow> isl (fst (acquire libs (CredentialAuth c) a)))"
  by (simp add: credential_getToken_first_token split: promise.splits option.splits)

text \<open>
  The copy of the factory in \<^verbatim>\<open>unnamed/part_000\<close> chains the Azure CLI credential in mode
  \<open>env\<close> too.
\<close>

lemma part_000_env_chains_cli:
  "createAuthenticator_part_000 ''env'' (Some ''contoso'') =
     Inr (CredentialAuth
            (ChainedTokenCredential (AzureCliCredential ''contoso'') DefaultAzureCredential))"
  by (simp add: createAuthenticator_part_000_def truthy_simps)

text \<open>
  C7, as stated, fails for \<^verbatim>\<open>createAuthenticator\<close> of \<^verbatim>\<open>auth.ts\<close>: in mode \<open>env\<close> with a tenant
  id supplied the credential is the generic one alone; no Azure CLI credential is chained
  before it.
\<close>

theorem env_mode_chains_no_cli_identity_counterexample:
  "truthy (Some ''contoso'') \<and>
   createAuthenticator ''env'' (Some ''contoso'') None = Inr (CredentialAuth DefaultAzureCredential) \<and>
   AzureCliCredential ''contoso'' \<notin> set (sources DefaultAzureCredential)"
  by (simp add: createAuthenticator_def truthy_simps)

text \<open>
  C7, amended: in the two service modes \<^verbatim>\<open>createAuthenticator\<close> of \<^verbatim>\<open>auth.ts\<close> returns an
  authenticator over a credential whose sources are the Azure CLI identity of the tenant
  followed by the generic source when a tenant id is supplied and the mode is \<open>azcli\<close>,
  and the generic source alone otherwise. A call returns the first token that the
  sources, asked in that order, give, and fails when none of them gives a token.
\<close>

theorem service_credential_chain:
  assumes "type = ''azcli'' \<or> type = ''env''"
  shows "\<exists>credential.
           createAuthenticator type tenantId opts = Inr (CredentialAuth credential) \<and>
           sources credential =
             (if truthy tenantId \<and> type = ''azcli''
              then [AzureCliCredential (the tenantId), DefaultAzureCredential]
              else [DefaultAzureCredential]) \<and>
           (\<forall>libs a r. first_token libs (sources credential) = Some r \<longrightarrow>
              fst (acquire libs (CredentialAuth credential) a) = Inr (token r)) \<and>
           (\<forall>libs a. first_token libs (sources credential) = None \<longrightarrow>
              isl (fst (acquire libs (CredentialAuth credential) a)))"
proof -
  let ?c = "if truthy tenantId \<and> type = ''azcli''
            then ChainedTokenCredential (AzureCliCredential (the tenantId)) DefaultAzureCredential
            else DefaultAzureCredential"
  have "createAuthenticator type tenantId opts = Inr (CredentialAuth ?c)"
    using assms by (auto simp: createAuthenticator_def)
  moreover have "sources ?c =
      (if truthy tenantId \<and> type = ''azcli''
       then [AzureCliCredential (the tenantId), DefaultAzureCredential]
       else [DefaultAzureCredential])"
    by simp
  moreover have "\<forall>libs a r. first_token libs (sources ?c) = Some r \<longrightarrow>
      fst (acquire libs (CredentialAuth ?c) a) = Inr (token r)"
    using acquire_first_token by blast
  moreover have "\<forall>libs a. first_token libs (sources ?c) = None \<longrightarrow>
      isl (fst (acquire libs (CredentialAuth ?c) a))"
    using acquire_first_token by blast
  ultimately show ?thesis by blast
qed

theorem service_credential_chain_witness:
  "createAuthenticator ''azcli'' (Some ''contoso'') None =
     Inr (CredentialAuth
            (ChainedTokenCredential (AzureCliCredential ''contoso'') DefaultAzureCredential)) \<and>
   fst (acquire two_source_libraries
          (CredentialAuth
             (ChainedTokenCredential (AzureCliCredential ''contoso'') DefaultAzureCredential))
          None) = Inr ''cli-token'' \<and>
   fst (acquire (two_source_libraries\<lparr>source_getToken :=
            (\<lambda>c. if c = DefaultAzureCredential then Resolves (Some \<lparr>token = ''default-token''\<rparr>)
                  else Rejects)\<rparr>)
          (CredentialAuth
             (ChainedTokenCredential (AzureCliCredential ''contoso'') DefaultAzureCredential))
          None) = Inr ''default-token'' \<and>
   fst (acquire refusing_libraries
          (CredentialAuth
             (ChainedTokenCredential (AzureCliCredential ''contoso'') DefaultAzureCredential))
          None) = Inl Rejection \<and>
   createAuthenticator ''env'' None None = Inr (CredentialAuth DefaultAzureCredential)"
proof -
  have azcli: "''azcli'' = ''azcli'' \<or> ''azcli'' = ''env''" by simp
  have env: "''env'' = ''azcli'' \<or> ''env'' = ''env''" by simp
  show ?thesis
    using service_credential_chain [OF azcli, of "Some ''contoso''" None]
          service_credential_chain [OF env, of None None]
    by (simp add: createAuthenticator_def truthy_simps two_source_libraries_def
          refusing_libraries_def)
qed

subsection \<open>Removal of a session\<close>






subsection \<open>The on-behalf-of check of the POST handler\<close>

text \<open>
  C9: in on-behalf-of mode a POST whose \<^verbatim>\<open>Authorization\<close> header carries no bearer value
  is answered with status 400 and a body that is not the JSON-RPC error -32000; the
  handler returns before it looks at the session id or the body, so the whole state,
  the registry of sessions included, is as it was, for a handshake body too.
\<close>

theorem obo_missing_bearer_rejected_before_routing:
  "authentication = ''obo'' \<Longrightarrow> \<not> truthy (bearer (authorization req)) \<Longrightarrow>
   post authentication sdk req st = (Responded user_token_required, st) \<and>
   status user_token_required = 400 \<and>
   user_token_required \<noteq> no_valid_session"
proof -
  assume "authentication = ''obo''" and "\<not> truthy (bearer (authorization req))"
  then have "extract_identity authentication req st = Inl user_token_required"
    by (simp add: extract_identity_def)
  then have "post authentication sdk req st = (Responded user_token_required, st)"
    by (simp add: post_def)
  moreover have "status user_token_required = 400"
    by (simp add: user_token_required_def)
  moreover have "user_token_required \<noteq> no_valid_session"
    by (simp add: user_token_required_def no_valid_session_def)
  ultimately show ?thesis by simp
qed

theorem obo_missing_bearer_rejected_before_routing_witness:
  "post ''obo'' \<lparr>events = [SessionInitialized 2], throws = False\<rparr>
        \<lparr>mcp_session_id = None, authorization = None, body = JsonObject (Some ''initialize'')\<rparr>
        one_session
     = (Responded \<lparr>status = 400,
                    payload = ErrorObject ''User token required for OBO authentication''\<rparr>,
        one_session) \<and>
   post ''obo'' quiet_run
        \<lparr>mcp_session_id = Some (randomUUID 1), authorization = Some ''Bearer'', body = NoBody\<rparr>
        one_session
     = (Responded \<lparr>status = 400,
                    payload = ErrorObject ''User token required for OBO authentication''\<rparr>,
        one_session)"
  using obo_missing_bearer_rejected_before_routing
          [of "''obo''"
              "\<lparr>mcp_session_id = None, authorization = None, body = JsonObject (Some ''initialize'')\<rparr>"
              "\<lparr>events = [SessionInitialized 2], throws = False\<rparr>" one_session]
        obo_missing_bearer_rejected_before_routing
          [of "''obo''"
              "\<lparr>mcp_session_id = Some (randomUUID 1), authorization = Some ''Bearer'', body = NoBody\<rparr>"
              quiet_run one_session]
  by (simp add: bearer_def index_js_def truthy_simps user_token_required_def)

subsection \<open>The default of the factory\<close>

text \<open>
  C10: for every authentication type other than \<open>azcli\<close>, \<open>env\<close>, \<open>external\<close> and \<open>obo\<close>, the
  empty string and a misspelled mode among them, \<^verbatim>\<open>createAuthenticator\<close> does not fail: it
  returns the interactive backend.
\<close>

theorem createAuthenticator_default_interactive:
  "type \<notin> {''azcli'', ''env'', ''external'', ''obo''} \<Longrightarrow>
   createAuthenticator type tenantId opts = Inr (OAuthAuth (OAuthAuthenticator tenantId))"
proof -
  assume "type \<notin> {''azcli'', ''env'', ''external'', ''obo''}"
  then have "type \<noteq> ''azcli''" "type \<noteq> ''env''" "type \<noteq> ''external''" "type \<noteq> ''obo''"
    by simp_all
  then show ?thesis by (simp add: createAuthenticator_def)
qed

theorem createAuthenticator_default_interactive_witness:
  "createAuthenticator '''' None None =
     Inr (OAuthAuth \<lparr>accountId = None,
                     publicClientApp_authority = ''https://login.microsoftonline.com/common''\<rparr>) \<and>
   createAuthenticator ''azcl'' (Some ''contoso'') None =
     Inr (OAuthAuth \<lparr>accountId = None,
                     publicClientApp_authority = ''https://login.microsoftonline.com/contoso''\<rparr>)"
  using createAuthenticator_default_interactive [of "''''" None None]
        createAuthenticator_default_interactive [of "''azcl''" "Some ''contoso''" None]
  by (simp add: OAuthAuthenticator_def truthy_simps)

end
